theory Spec2Isabelle
  imports Complex_Main "HOL-Library.Word"
begin

section \<open>Values exchanged with the Python runtime and its libraries\<close>

text \<open>
  The program is \<^verbatim>\<open>src/app/app.py\<close>: a Flask application with two POST handlers
  (\<^verbatim>\<open>predict\<close>, \<^verbatim>\<open>classify_image\<close>), one preprocessing function
  (\<^verbatim>\<open>preprocess_image\<close>) and a start-up function (\<^verbatim>\<open>load_model\<close>).

  A raised Python exception is a value \<open>Inl e\<close>; a returned value is \<open>Inr v\<close>.
\<close>

type_synonym byte = "8 word"

datatype error =
    AttributeError    \<comment> \<open>attribute lookup (\<^verbatim>\<open>.read\<close>, \<^verbatim>\<open>.get\<close>, \<^verbatim>\<open>.startswith\<close>) on a value without it\<close>
  | ValueError        \<comment> \<open>tuple unpacking of a one-element list; \<^verbatim>\<open>np.argmax\<close> of an empty array\<close>
  | NameError         \<comment> \<open>a global read before \<^verbatim>\<open>load_model\<close> has bound it\<close>
  | BinasciiError     \<comment> \<open>raised by \<^verbatim>\<open>base64.b64decode\<close>\<close>
  | Cv2Error          \<comment> \<open>\<^verbatim>\<open>cv2.error\<close>\<close>
  | OSError           \<comment> \<open>raised by \<^verbatim>\<open>tf.keras.models.load_model\<close>\<close>
  | KerasError        \<comment> \<open>raised by \<^verbatim>\<open>model.predict\<close>\<close>

text \<open>A parsed JSON document, as \<^verbatim>\<open>request.get_json()\<close> returns it.\<close>

datatype json =
    JNull
  | JBool bool
  | JNum real
  | JStr string
  | JArr "json list"
  | JObj "(string \<times> json) list"

text \<open>
  A werkzeug \<^verbatim>\<open>FileStorage\<close>: \<^verbatim>\<open>read()\<close> yields the uploaded bytes, and its truth
  value is that of its file name (\<^verbatim>\<open>FileStorage.__bool__\<close> is \<^verbatim>\<open>bool(self.filename)\<close>).
\<close>

record file_storage =
  filename :: string
  content :: "byte list"

text \<open>
  The argument \<^verbatim>\<open>data\<close> of \<^verbatim>\<open>preprocess_image\<close> is duck-typed: \<^verbatim>\<open>predict\<close> passes a
  JSON value, \<^verbatim>\<open>classify_image\<close> passes an upload.
\<close>

datatype arg = Json json | Upload file_storage

text \<open>
  An image as \<^verbatim>\<open>cv2.imdecode(_, cv2.IMREAD_COLOR)\<close> returns it: rows of pixels, each pixel
  three \<^verbatim>\<open>uint8\<close> channels (the flag always yields a 3-channel 8-bit image). The
  tensor handed to the model has one more leading axis. Python floats are idealised as
  real numbers.
\<close>

type_synonym pixel = "byte \<times> byte \<times> byte"
type_synonym image = "pixel list list"
type_synonym fpixel = "real \<times> real \<times> real"
type_synonym tensor = "fpixel list list list"

record request =
  get_json :: json
  files :: "(string \<times> file_storage) list"

text \<open>A response is the pair Flask builds from \<^verbatim>\<open>jsonify(d)\<close> and a status code.\<close>

type_synonym response = "(string \<times> string) list \<times> nat"

text \<open>
  The library calls whose code is not part of the repository are parameters of the model.
  \<^item> \<open>b64decode\<close>: \<^verbatim>\<open>base64.b64decode\<close>.
  \<^item> \<open>imdecode\<close>: \<^verbatim>\<open>cv2.imdecode(_, cv2.IMREAD_COLOR)\<close>; \<open>Inr None\<close> is Python's
    \<^verbatim>\<open>None\<close>, which it returns for a buffer it cannot decode.
  \<^item> \<open>resize\<close>: \<^verbatim>\<open>cv2.resize(img, dsize)\<close> with \<open>dsize = (width, height)\<close>.
  \<^item> \<open>keras_load_model\<close>: \<^verbatim>\<open>tf.keras.models.load_model(path)\<close>.
  \<^item> \<open>model_predict\<close>: \<^verbatim>\<open>model.predict(img)\<close>, an array of scores of shape
    (batch, classes).
  \<^item> \<open>app_dir\<close>: \<^verbatim>\<open>os.path.dirname(__file__)\<close>.
\<close>

record 'm lib =
  b64decode :: "string \<Rightarrow> error + byte list"
  imdecode :: "byte list \<Rightarrow> error + image option"
  resize :: "image \<Rightarrow> nat \<times> nat \<Rightarrow> error + image"
  keras_load_model :: "string \<Rightarrow> error + 'm"
  model_predict :: "'m \<Rightarrow> tensor \<Rightarrow> error + real list list"
  app_dir :: string

text \<open>
  The module's globals, bound by \<^verbatim>\<open>load_model\<close> (\<open>None\<close>: not yet bound). The field
  \<open>calls\<close> is a ghost log of the calls a handler makes to \<^verbatim>\<open>preprocess_image\<close> and
  \<^verbatim>\<open>model.predict\<close>; the program does not read it.
\<close>

datatype call = Call_preprocess_image | Call_model_predict

record 'm globals =
  model :: "'m option"
  LABEL_MAP :: "(nat \<times> char) list option"
  calls :: "call list"

section \<open>Python built-ins used by the program\<close>

definition ascii_uppercase :: string where
  "ascii_uppercase = ''ABCDEFGHIJKLMNOPQRSTUVWXYZ''"

text \<open>\<^verbatim>\<open>s.startswith(p)\<close>\<close>

definition startswith :: "string \<Rightarrow> string \<Rightarrow> bool" where
  "startswith s p = (take (length p) s = p)"

text \<open>\<^verbatim>\<open>s.split(c, 1)\<close>: one element when \<open>c\<close> does not occur, else the text before and
  after its first occurrence.\<close>

definition split1 :: "string \<Rightarrow> char \<Rightarrow> string list" where
  "split1 s c =
     (case dropWhile (\<lambda>x. x \<noteq> c) s of
        [] \<Rightarrow> [s]
      | _ # rest \<Rightarrow> [takeWhile (\<lambda>x. x \<noteq> c) s, rest])"

text \<open>\<^verbatim>\<open>d.get(k)\<close> and \<^verbatim>\<open>d.get(k, default)\<close> on a dict.\<close>

definition dict_get :: "('k \<times> 'v) list \<Rightarrow> 'k \<Rightarrow> 'v \<Rightarrow> 'v" where
  "dict_get d k dflt = (case map_of d k of None \<Rightarrow> dflt | Some v \<Rightarrow> v)"

text \<open>\<^verbatim>\<open>data.get('image')\<close> on a JSON value: only an object has \<^verbatim>\<open>get\<close>.\<close>

fun json_get :: "json \<Rightarrow> string \<Rightarrow> error + json" where
  "json_get (JObj d) k = Inr (dict_get d k JNull)"
| "json_get _ k = Inl AttributeError"

text \<open>\<^verbatim>\<open>isinstance(data, str) and data.startswith('data:image')\<close>\<close>

fun is_data_url :: "arg \<Rightarrow> bool" where
  "is_data_url (Json (JStr s)) = startswith s ''data:image''"
| "is_data_url _ = False"

text \<open>\<^verbatim>\<open>data.read()\<close>: only the upload has the method.\<close>

fun py_read :: "arg \<Rightarrow> error + byte list" where
  "py_read (Upload f) = Inr (content f)"
| "py_read (Json _) = Inl AttributeError"

text \<open>\<^verbatim>\<open>not file\<close> for the value \<^verbatim>\<open>request.files.get('image')\<close>.\<close>

fun py_not :: "file_storage option \<Rightarrow> bool" where
  "py_not None = True"
| "py_not (Some f) = (filename f = [])"

section \<open>numpy and OpenCV operations with a fixed meaning\<close>

text \<open>\<^verbatim>\<open>np.frombuffer(b, np.uint8)\<close>: the bytes as an array of \<^verbatim>\<open>uint8\<close>.\<close>

definition np_frombuffer :: "byte list \<Rightarrow> byte list" where
  "np_frombuffer b = b"

text \<open>\<^verbatim>\<open>cv2.cvtColor(img, cv2.COLOR_BGR2RGB)\<close>: raises on \<^verbatim>\<open>None\<close>, else swaps the
  first and third channel of every pixel.\<close>

fun BGR2RGB :: "pixel \<Rightarrow> pixel" where
  "BGR2RGB (b, g, r) = (r, g, b)"

fun cvtColor :: "image option \<Rightarrow> error + image" where
  "cvtColor None = Inl Cv2Error"
| "cvtColor (Some img) = Inr (map (map BGR2RGB) img)"

text \<open>\<^verbatim>\<open>img / 255.0\<close>, element by element.\<close>

fun div_pixel :: "real \<Rightarrow> pixel \<Rightarrow> fpixel" where
  "div_pixel d (r, g, b) = (real (unat r) / d, real (unat g) / d, real (unat b) / d)"

definition np_divide :: "image \<Rightarrow> real \<Rightarrow> fpixel list list" where
  "np_divide img d = map (map (div_pixel d)) img"

text \<open>\<^verbatim>\<open>np.expand_dims(img, axis=0)\<close>\<close>

definition np_expand_dims :: "'a \<Rightarrow> 'a list" where
  "np_expand_dims img = [img]"

text \<open>
  \<^verbatim>\<open>np.argmax(preds)\<close> without an axis: a scan of the flattened array that keeps the
  first position of the largest value seen; an empty array raises.
\<close>

fun argmax_loop :: "real list \<Rightarrow> nat \<Rightarrow> nat \<Rightarrow> real \<Rightarrow> nat" where
  "argmax_loop [] i best bv = best"
| "argmax_loop (x # xs) i best bv =
     (if bv < x then argmax_loop xs (Suc i) i x else argmax_loop xs (Suc i) best bv)"

definition np_argmax :: "real list list \<Rightarrow> error + nat" where
  "np_argmax a =
     (case concat a of
        [] \<Rightarrow> Inl ValueError
      | x # xs \<Rightarrow> Inr (argmax_loop xs 1 0 x))"

section \<open>The program\<close>

text \<open>\<^verbatim>\<open>os.path.join(a, b)\<close> for a relative \<open>b\<close>.\<close>

definition os_path_join :: "string \<Rightarrow> string \<Rightarrow> string" where
  "os_path_join a b = (if a = [] \<or> last a = CHR ''/'' then a @ b else a @ ''/'' @ b)"

text \<open>\<^verbatim>\<open>load_model\<close> (lines 15-20): binds both globals, the model first.\<close>

definition load_model :: "'m lib \<Rightarrow> 'm globals \<Rightarrow> (error + unit) \<times> 'm globals" where
  "load_model lib g =
     (let model_path = os_path_join (app_dir lib) ''../models/asl_cnn_model.h5'' in
      case keras_load_model lib model_path of
        Inl e \<Rightarrow> (Inl e, g)
      | Inr m \<Rightarrow>
          (Inr (), g\<lparr>model := Some m, LABEL_MAP := Some (enumerate 0 ascii_uppercase)\<rparr>))"

text \<open>
  \<^verbatim>\<open>preprocess_image\<close> (lines 23-43); \<open>target_size'\<close> is its parameter
  \<^verbatim>\<open>target_size\<close>. Unpacking \<^verbatim>\<open>header, encoded = data.split(',', 1)\<close> raises when
  the string has no comma. The case of a data URL that is not a string only completes the
  pattern match: \<open>is_data_url\<close> holds of strings alone.
\<close>

definition preprocess_image :: "'m lib \<Rightarrow> arg \<Rightarrow> nat \<times> nat \<Rightarrow> error + tensor" where
  "preprocess_image lib data target_size' =
     (case
        (if is_data_url data then
           (case data of
              Json (JStr s) \<Rightarrow>
                (case split1 s CHR '','' of
                   [header, encoded] \<Rightarrow>
                     (case b64decode lib encoded of
                        Inl e \<Rightarrow> Inl e
                      | Inr image_bytes \<Rightarrow> imdecode lib (np_frombuffer image_bytes))
                 | _ \<Rightarrow> Inl ValueError)
            | _ \<Rightarrow> Inl AttributeError)
         else
           (case py_read data of
              Inl e \<Rightarrow> Inl e
            | Inr file_bytes \<Rightarrow> imdecode lib (np_frombuffer file_bytes)))
      of
        Inl e \<Rightarrow> Inl e
      | Inr img \<Rightarrow>
          (case cvtColor img of
             Inl e \<Rightarrow> Inl e
           | Inr img1 \<Rightarrow>
               (case resize lib img1 target_size' of
                  Inl e \<Rightarrow> Inl e
                | Inr img2 \<Rightarrow> Inr (np_expand_dims (np_divide img2 255)))))"

text \<open>
  Lines 55-56 and 66-67, the same two statements in both handlers:
  \<^verbatim>\<open>index = int(np.argmax(preds)); letter = LABEL_MAP.get(index, '?')\<close>.
\<close>

definition decode_label :: "(nat \<times> char) list option \<Rightarrow> real list list \<Rightarrow> error + char" where
  "decode_label label_map preds =
     (case np_argmax preds of
        Inl e \<Rightarrow> Inl e
      | Inr index \<Rightarrow>
          (case label_map of
             None \<Rightarrow> Inl NameError
           | Some d \<Rightarrow> Inr (dict_get d index CHR ''?'')))"

text \<open>Lines 54-57 and 65-68: inference and the response, once the tensor is there.\<close>

definition infer :: "'m lib \<Rightarrow> 'm globals \<Rightarrow> tensor \<Rightarrow> (error + response) \<times> 'm globals" where
  "infer lib g img =
     (case model g of
        None \<Rightarrow> (Inl NameError, g)
      | Some m \<Rightarrow>
          (let g' = g\<lparr>calls := calls g @ [Call_model_predict]\<rparr> in
           case model_predict lib m img of
             Inl e \<Rightarrow> (Inl e, g')
           | Inr preds \<Rightarrow>
               (case decode_label (LABEL_MAP g') preds of
                  Inl e \<Rightarrow> (Inl e, g')
                | Inr letter \<Rightarrow> (Inr ([(''prediction'', [letter])], 200), g'))))"

text \<open>\<^verbatim>\<open>predict\<close> (lines 49-57), the handler of \<^verbatim>\<open>POST /predict\<close>.\<close>

definition predict :: "'m lib \<Rightarrow> 'm globals \<Rightarrow> request \<Rightarrow> (error + response) \<times> 'm globals" where
  "predict lib g req =
     (let data = get_json req in
      case json_get data ''image'' of
        Inl e \<Rightarrow> (Inl e, g)
      | Inr image_data \<Rightarrow>
          (let g' = g\<lparr>calls := calls g @ [Call_preprocess_image]\<rparr> in
           case preprocess_image lib (Json image_data) (224, 224) of
             Inl e \<Rightarrow> (Inl e, g')
           | Inr img \<Rightarrow> infer lib g' img))"

text \<open>
  \<^verbatim>\<open>classify_image\<close> (lines 59-68), the handler of \<^verbatim>\<open>POST /classify_image\<close>;
  \<^verbatim>\<open>request.files.get('image')\<close> is \<^verbatim>\<open>None\<close> when the field is absent. The case
  \<open>None\<close> after the test only completes the pattern match: \<open>py_not None\<close> holds.
\<close>

definition classify_image ::
  "'m lib \<Rightarrow> 'm globals \<Rightarrow> request \<Rightarrow> (error + response) \<times> 'm globals" where
  "classify_image lib g req =
     (let file = map_of (files req) ''image'' in
      if py_not file then (Inr ([(''error'', ''No image provided'')], 400), g)
      else
        (case file of
           None \<Rightarrow> (Inl AttributeError, g)
         | Some f \<Rightarrow>
             (let g' = g\<lparr>calls := calls g @ [Call_preprocess_image]\<rparr> in
              case preprocess_image lib (Upload f) (224, 224) of
                Inl e \<Rightarrow> (Inl e, g')
              | Inr img \<Rightarrow> infer lib g' img)))"

section \<open>Shapes and ranges\<close>

text \<open>An array of \<open>h\<close> rows of \<open>w\<close> pixels: numpy shape \<open>(h, w, 3)\<close>.\<close>

definition is_image :: "nat \<Rightarrow> nat \<Rightarrow> 'a list list \<Rightarrow> bool" where
  "is_image h w img = (length img = h \<and> list_all (\<lambda>row. length row = w) img)"

text \<open>
  The shape of a tensor. The last axis is the three components of a pixel, which the type
  fixes, so the only admissible last entry is 3.
\<close>

definition has_shape :: "tensor \<Rightarrow> nat \<times> nat \<times> nat \<times> nat \<Rightarrow> bool" where
  "has_shape t s =
     (case s of (n, h, w, c) \<Rightarrow> length t = n \<and> list_all (is_image h w) t \<and> c = 3)"

definition unit_pixel :: "fpixel \<Rightarrow> bool" where
  "unit_pixel p = (case p of (r, g, b) \<Rightarrow> 0 \<le> r \<and> r \<le> 1 \<and> 0 \<le> g \<and> g \<le> 1 \<and> 0 \<le> b \<and> b \<le> 1)"

definition unit_range :: "tensor \<Rightarrow> bool" where
  "unit_range t = list_all (list_all (list_all unit_pixel)) t"

text \<open>
  Lines 28-29 and 33-34 onwards: what both branches of \<^verbatim>\<open>preprocess_image\<close> do once
  the raw bytes are there. The program has no such function; it is the common part of
  the two branches, named for the proofs.
\<close>

definition after_bytes :: "'m lib \<Rightarrow> byte list \<Rightarrow> nat \<times> nat \<Rightarrow> error + tensor" where
  "after_bytes lib bs ts =
     (case imdecode lib bs of
        Inl e \<Rightarrow> Inl e
      | Inr img \<Rightarrow>
          (case cvtColor img of
             Inl e \<Rightarrow> Inl e
           | Inr img1 \<Rightarrow>
               (case resize lib img1 ts of
                  Inl e \<Rightarrow> Inl e
                | Inr img2 \<Rightarrow> Inr (np_expand_dims (np_divide img2 255)))))"

section \<open>Inputs and library stand-ins for concrete evaluation\<close>

text \<open>
  A library instance on which the program can be run: the base64 text \<^verbatim>\<open>AQID\<close>
  decodes to the bytes 1, 2, 3; those bytes decode to a one-pixel pure blue image (BGR
  255, 0, 0); every other buffer is undecodable; resizing repeats the top-left pixel;
  the model file loads; inference returns a fixed score vector.
\<close>

definition example_lib :: "unit lib" where
  "example_lib =
     \<lparr>b64decode = (\<lambda>s. if s = ''AQID'' then Inr [1, 2, 3] else Inl BinasciiError),
      imdecode = (\<lambda>bs. Inr (if bs = [1, 2, 3] then Some [[(255, 0, 0)]] else None)),
      resize = (\<lambda>img (w, h).
         case img of (p # _) # _ \<Rightarrow> Inr (replicate h (replicate w p)) | _ \<Rightarrow> Inl Cv2Error),
      keras_load_model = (\<lambda>p. Inr ()),
      model_predict = (\<lambda>m t. Inr [[0, 1 / 4, 3 / 4, 0]]),
      app_dir = ''/srv/app''\<rparr>"

definition unloaded :: "unit globals" where
  "unloaded = \<lparr>model = None, LABEL_MAP = None, calls = []\<rparr>"

definition loaded :: "unit globals" where
  "loaded = \<lparr>model = Some (), LABEL_MAP = Some (enumerate 0 ascii_uppercase), calls = []\<rparr>"

definition blue_upload :: file_storage where
  "blue_upload = \<lparr>filename = ''blue.png'', content = [1, 2, 3]\<rparr>"

definition junk_upload :: file_storage where
  "junk_upload = \<lparr>filename = ''junk.png'', content = [7]\<rparr>"

definition unnamed_upload :: file_storage where
  "unnamed_upload = \<lparr>filename = [], content = [1, 2, 3]\<rparr>"

definition blue_url :: string where
  "blue_url = ''data:image/png;base64,AQID''"

definition blue_tensor :: tensor where
  "blue_tensor = [replicate 224 (replicate 224 (0, 0, 1))]"

text \<open>
  A second instance whose image has three different channel values: the base64 text
  \<^verbatim>\<open>BAUG\<close> decodes to the bytes 4, 5, 6, and those decode to one pixel with BGR
  30, 20, 10.
\<close>

definition grey_lib :: "unit lib" where
  "grey_lib =
     example_lib
       \<lparr>b64decode := (\<lambda>s. if s = ''BAUG'' then Inr [4, 5, 6] else Inl BinasciiError),
        imdecode := (\<lambda>bs. Inr (if bs = [4, 5, 6] then Some [[(30, 20, 10)]] else None))\<rparr>"

definition grey_upload :: file_storage where
  "grey_upload = \<lparr>filename = ''grey.png'', content = [4, 5, 6]\<rparr>"

definition grey_url :: string where
  "grey_url = ''data:image/png;base64,BAUG''"

definition grey_tensor :: tensor where
  "grey_tensor = [replicate 224 (replicate 224 (2 / 51, 4 / 51, 2 / 17))]"

section \<open>Label decoding\<close>

lemma map_of_enumerate:
  "map_of (enumerate n xs) k =
     (if n \<le> k \<and> k < n + length xs then Some (xs ! (k - n)) else None)"
proof (induction xs arbitrary: n)
  case Nil
  then show ?case by simp
next
  case (Cons x xs)
  show ?case
  proof (cases "k = n")
    case True
    then show ?thesis by simp
  next
    case False
    then show ?thesis using Cons.IH [of "Suc n"] by (auto simp: nth_Cons')
  qed
qed

lemma load_model_LABEL_MAP:
  assumes "load_model lib g0 = (Inr (), g)"
  shows "LABEL_MAP g = Some (enumerate 0 ascii_uppercase)"
  using assms by (auto simp: load_model_def Let_def split: sum.splits)

lemma length_ascii_uppercase: "length ascii_uppercase = 26"
  by (simp add: ascii_uppercase_def)

text \<open>
  The scan keeps three facts about the part \<open>pre\<close> of the array already visited: the best
  position lies in it and holds the best value, nothing visited is larger, and everything
  before the best position is strictly smaller.
\<close>

lemma argmax_loop_spec:
  assumes "length pre = i" "best < i" "pre ! best = bv"
    and "\<forall>j<i. pre ! j \<le> bv" and "\<forall>j<best. pre ! j < bv"
  shows "argmax_loop xs i best bv < length (pre @ xs)
       \<and> (\<forall>j<length (pre @ xs). (pre @ xs) ! j \<le> (pre @ xs) ! argmax_loop xs i best bv)
       \<and> (\<forall>j<argmax_loop xs i best bv.
            (pre @ xs) ! j < (pre @ xs) ! argmax_loop xs i best bv)"
  using assms
proof (induction xs arbitrary: pre i best bv)
  case Nil
  then show ?case by simp
next
  case (Cons x xs)
  let ?pre = "pre @ [x]"
  have len: "length ?pre = Suc i" using Cons.prems by simp
  show ?case
  proof (cases "bv < x")
    case True
    have a: "i < Suc i" by simp
    have b: "?pre ! i = x" using Cons.prems(1) by (simp add: nth_append)
    have c: "\<forall>j<Suc i. ?pre ! j \<le> x"
      using Cons.prems True by (auto simp: nth_append less_Suc_eq)
    have d: "\<forall>j<i. ?pre ! j < x"
      using Cons.prems True by (auto simp: nth_append intro: le_less_trans)
    from Cons.IH [OF len a b c d] True show ?thesis by simp
  next
    case False
    have a: "best < Suc i" using Cons.prems by simp
    have b: "?pre ! best = bv" using Cons.prems by (simp add: nth_append)
    have c: "\<forall>j<Suc i. ?pre ! j \<le> bv"
      using Cons.prems False by (auto simp: nth_append less_Suc_eq)
    have d: "\<forall>j<best. ?pre ! j < bv"
      using Cons.prems by (auto simp: nth_append)
    from Cons.IH [OF len a b c d] False show ?thesis by simp
  qed
qed

lemma np_argmax_first_max:
  assumes "concat a = v" "v \<noteq> []"
  shows "\<exists>i. np_argmax a = Inr i \<and> i < length v
           \<and> (\<forall>j<length v. v ! j \<le> v ! i) \<and> (\<forall>j<i. v ! j < v ! i)"
proof -
  obtain x xs where v: "v = x # xs" using assms(2) by (cases v) auto
  have "argmax_loop xs 1 0 x < length ([x] @ xs)
       \<and> (\<forall>j<length ([x] @ xs). ([x] @ xs) ! j \<le> ([x] @ xs) ! argmax_loop xs 1 0 x)
       \<and> (\<forall>j<argmax_loop xs 1 0 x. ([x] @ xs) ! j < ([x] @ xs) ! argmax_loop xs 1 0 x)"
    by (rule argmax_loop_spec) auto
  then show ?thesis using v assms(1) by (simp add: np_argmax_def)
qed

lemma first_max_unique:
  fixes v :: "real list"
  assumes "i < length v" "k < length v"
    and "\<forall>j<length v. v ! j \<le> v ! i" "\<forall>j<i. v ! j < v ! i"
    and "\<forall>j<length v. v ! j \<le> v ! k" "\<forall>j<k. v ! j < v ! k"
  shows "i = k"
proof (rule ccontr)
  assume "i \<noteq> k"
  then consider "i < k" | "k < i" by linarith
  then show False
  proof cases
    case 1
    with assms have "v ! i < v ! k" "v ! k \<le> v ! i" by auto
    then show False by simp
  next
    case 2
    with assms have "v ! k < v ! i" "v ! i \<le> v ! k" by auto
    then show False by simp
  qed
qed

lemma np_argmax_eq:
  assumes "concat a = v" "i < length v"
    and "\<forall>j<length v. v ! j \<le> v ! i" "\<forall>j<i. v ! j < v ! i"
  shows "np_argmax a = Inr i"
proof -
  from assms(2) have "v \<noteq> []" by auto
  from np_argmax_first_max [OF assms(1) this]
  obtain k where k: "np_argmax a = Inr k" "k < length v"
    "\<forall>j<length v. v ! j \<le> v ! k" "\<forall>j<k. v ! j < v ! k" by blast
  have "i = k" by (rule first_max_unique [OF assms(2) k(2) assms(3,4) k(3,4)])
  with k(1) show ?thesis by simp
qed

subsection \<open>Claims about label decoding\<close>

text \<open>
  Claim C3. Once \<^verbatim>\<open>load_model\<close> has run, label decoding of a prediction array whose
  maximum is at index \<open>i\<close>, \<open>0 \<le> i \<le> 25\<close> (\<open>i\<close> the first position holding the largest
  score, as in a one-hot vector), returns the \<open>i\<close>-th letter of the uppercase alphabet;
  index 0 is \<open>A\<close> and index 25 is \<open>Z\<close>.
\<close>

theorem decode_label_letter:
  assumes "load_model lib g0 = (Inr (), g)"
    and "concat preds = v" and "i < length v" and "i \<le> 25"
    and "\<forall>j<length v. v ! j \<le> v ! i" and "\<forall>j<i. v ! j < v ! i"
  shows "decode_label (LABEL_MAP g) preds = Inr (ascii_uppercase ! i)
       \<and> ascii_uppercase ! 0 = CHR ''A'' \<and> ascii_uppercase ! 25 = CHR ''Z''"
proof -
  have am: "np_argmax preds = Inr i"
    by (rule np_argmax_eq [OF assms(2,3,5,6)])
  have lm: "LABEL_MAP g = Some (enumerate 0 ascii_uppercase)"
    by (rule load_model_LABEL_MAP [OF assms(1)])
  have "map_of (enumerate 0 ascii_uppercase) i = Some (ascii_uppercase ! i)"
    using assms(4) by (simp add: map_of_enumerate length_ascii_uppercase)
  then have "decode_label (LABEL_MAP g) preds = Inr (ascii_uppercase ! i)"
    by (simp add: decode_label_def am lm dict_get_def)
  moreover have "ascii_uppercase ! 0 = CHR ''A''" "ascii_uppercase ! 25 = CHR ''Z''"
    by (simp_all add: ascii_uppercase_def)
  ultimately show ?thesis by simp
qed

theorem decode_label_letter_witness:
  "load_model example_lib unloaded = (Inr (), loaded)
   \<and> concat [replicate 25 0 @ [1]] = replicate 25 0 @ [1]
   \<and> 25 < length (replicate 25 (0::real) @ [1])
   \<and> decode_label (LABEL_MAP loaded) [replicate 25 0 @ [1]] = Inr CHR ''Z''
   \<and> decode_label (LABEL_MAP loaded) [[1, 0, 0]] = Inr CHR ''A''"
proof -
  have ld: "load_model example_lib unloaded = (Inr (), loaded)"
    by (simp add: load_model_def example_lib_def unloaded_def loaded_def)
  have c: "concat [replicate 25 0 @ [1]] = replicate 25 (0::real) @ [1]" by simp
  have l: "25 < length (replicate 25 (0::real) @ [1])" by simp
  have m: "\<forall>j<length (replicate 25 (0::real) @ [1]).
             (replicate 25 0 @ [1]) ! j \<le> (replicate 25 (0::real) @ [1]) ! 25"
    by (auto simp: nth_append)
  have f: "\<forall>j<25. (replicate 25 (0::real) @ [1]) ! j < (replicate 25 (0::real) @ [1]) ! 25"
    by (auto simp: nth_append)
  have c0: "concat [[1, 0, 0]] = [1, 0, 0::real]" by simp
  have m0: "\<forall>j<length [1, 0, 0::real]. [1, 0, 0::real] ! j \<le> [1, 0, 0] ! 0"
    by (auto simp: nth_Cons')
  have Z: "decode_label (LABEL_MAP loaded) [replicate 25 0 @ [1]] = Inr (ascii_uppercase ! 25)"
    using decode_label_letter [OF ld c l _ m f] by simp
  have A: "decode_label (LABEL_MAP loaded) [[1, 0, 0]] = Inr (ascii_uppercase ! 0)"
    using decode_label_letter [OF ld c0 _ _ m0] by simp
  show ?thesis using ld Z A by (simp add: ascii_uppercase_def)
qed

text \<open>
  Claim C4. When the index that \<^verbatim>\<open>np.argmax\<close> returns is not one of 0..25, label
  decoding returns the character \<open>?\<close> and raises nothing.
\<close>

theorem decode_label_out_of_range:
  assumes "load_model lib g0 = (Inr (), g)"
    and "np_argmax preds = Inr i" and "26 \<le> i"
  shows "decode_label (LABEL_MAP g) preds = Inr CHR ''?''"
proof -
  have lm: "LABEL_MAP g = Some (enumerate 0 ascii_uppercase)"
    by (rule load_model_LABEL_MAP [OF assms(1)])
  have "map_of (enumerate 0 ascii_uppercase) i = None"
    using assms(3) by (simp add: map_of_enumerate length_ascii_uppercase)
  then show ?thesis
    by (simp add: decode_label_def assms(2) lm dict_get_def)
qed

theorem decode_label_out_of_range_witness:
  "load_model example_lib unloaded = (Inr (), loaded)
   \<and> np_argmax [replicate 26 0 @ [1]] = Inr 26
   \<and> decode_label (LABEL_MAP loaded) [replicate 26 0 @ [1]] = Inr CHR ''?''"
proof -
  have ld: "load_model example_lib unloaded = (Inr (), loaded)"
    by (simp add: load_model_def example_lib_def unloaded_def loaded_def)
  have am: "np_argmax [replicate 26 0 @ [1]] = Inr 26"
    by (rule np_argmax_eq [where v = "replicate 26 0 @ [1]"]) (auto simp: nth_append)
  show ?thesis using ld am decode_label_out_of_range [OF ld am] by simp
qed

text \<open>
  Claim C7. For a non-empty prediction array the index chosen holds the largest score and
  is the lowest of the positions that hold it, so among tied maxima the first one decides
  the label.
\<close>

theorem argmax_ties_lowest_index:
  assumes "concat preds = v" and "v \<noteq> []"
  shows "\<exists>i. np_argmax preds = Inr i \<and> i < length v
           \<and> (\<forall>j<length v. v ! j \<le> v ! i)
           \<and> (\<forall>k<length v. v ! k = v ! i \<longrightarrow> i \<le> k)
           \<and> decode_label (Some d) preds = Inr (dict_get d i CHR ''?'')"
proof -
  from np_argmax_first_max [OF assms]
  obtain i where i: "np_argmax preds = Inr i" "i < length v"
    "\<forall>j<length v. v ! j \<le> v ! i" "\<forall>j<i. v ! j < v ! i" by blast
  have "\<forall>k<length v. v ! k = v ! i \<longrightarrow> i \<le> k"
  proof (intro allI impI)
    fix k assume "k < length v" "v ! k = v ! i"
    show "i \<le> k"
    proof (rule ccontr)
      assume "\<not> i \<le> k"
      then have "k < i" by simp
      with i(4) have "v ! k < v ! i" by simp
      with \<open>v ! k = v ! i\<close> show False by simp
    qed
  qed
  moreover have "decode_label (Some d) preds = Inr (dict_get d i CHR ''?'')"
    by (simp add: decode_label_def i(1))
  ultimately show ?thesis using i by blast
qed

theorem argmax_ties_lowest_index_witness:
  "concat [[0, 3 / 8, 1 / 4, 3 / 8]] = [0, 3 / 8, 1 / 4, 3 / 8 :: real]
   \<and> [0, 3 / 8, 1 / 4, 3 / 8 :: real] \<noteq> []
   \<and> np_argmax [[0, 3 / 8, 1 / 4, 3 / 8]] = Inr 1
   \<and> decode_label (LABEL_MAP loaded) [[0, 3 / 8, 1 / 4, 3 / 8]] = Inr CHR ''B''"
  using argmax_ties_lowest_index
    [of "[[0, 3 / 8, 1 / 4, 3 / 8]]" "[0, 3 / 8, 1 / 4, 3 / 8]" "enumerate 0 ascii_uppercase"]
  by (simp add: np_argmax_def decode_label_def dict_get_def loaded_def ascii_uppercase_def)

section \<open>Preprocessing\<close>

lemma unat_byte_le: "unat (x :: byte) \<le> 255"
proof -
  have "unat x < 2 ^ LENGTH(8)" by (rule unsigned_less)
  then show ?thesis by simp
qed

lemma real_unat_byte_le: "real (unat (x :: byte)) \<le> 255"
proof -
  have "real (unat x) \<le> real 255" by (simp only: of_nat_le_iff unat_byte_le)
  then show ?thesis by simp
qed

lemma real_unat_byte_ge: "0 \<le> real (unat (x :: byte))"
  by (simp only: of_nat_0_le_iff)

lemma unit_pixel_div: "unit_pixel (div_pixel 255 p)"
proof (cases p)
  case (fields r g b)
  show ?thesis
    using fields real_unat_byte_le [of r] real_unat_byte_le [of g] real_unat_byte_le [of b]
      real_unat_byte_ge [of r] real_unat_byte_ge [of g] real_unat_byte_ge [of b]
    by (simp add: unit_pixel_def)
qed

lemma unit_range_np_divide: "unit_range (np_expand_dims (np_divide img 255))"
  by (simp add: unit_range_def np_expand_dims_def np_divide_def list_all_iff unit_pixel_div)

lemma has_shape_np_divide:
  assumes "is_image h w img"
  shows "has_shape (np_expand_dims (np_divide img d)) (1, h, w, 3)"
  using assms
  by (simp add: has_shape_def np_expand_dims_def np_divide_def is_image_def list_all_iff)

lemma preprocess_image_Upload:
  "preprocess_image lib (Upload f) ts = after_bytes lib (content f) ts"
  by (simp add: preprocess_image_def after_bytes_def np_frombuffer_def)

lemma preprocess_image_data_url:
  assumes "startswith s ''data:image''" and "split1 s CHR '','' = [header, encoded]"
    and "b64decode lib encoded = Inr bs"
  shows "preprocess_image lib (Json (JStr s)) ts = after_bytes lib bs ts"
  using assms by (simp add: preprocess_image_def after_bytes_def np_frombuffer_def)

lemma split1_blue_url: "split1 blue_url CHR '','' = [''data:image/png;base64'', ''AQID'']"
  by (simp add: split1_def blue_url_def)

lemma startswith_blue_url: "startswith blue_url ''data:image''"
  by (simp add: startswith_def blue_url_def)

lemma is_image_replicate: "is_image h w (replicate h (replicate w p))"
  by (simp add: is_image_def list_all_iff)

lemma is_image_nth:
  assumes "is_image h w img" and "y < h"
  shows "length (img ! y) = w"
proof -
  from assms have "img ! y \<in> set img" by (simp add: is_image_def)
  with assms(1) show ?thesis by (simp add: is_image_def list_all_iff)
qed

lemma np_divide_nth:
  assumes "is_image h w img" and "y < h" and "x < w"
  shows "np_expand_dims (np_divide img d) ! 0 ! y ! x = div_pixel d (img ! y ! x)"
proof -
  have "length img = h" using assms(1) by (simp add: is_image_def)
  moreover have "length (img ! y) = w" by (rule is_image_nth [OF assms(1,2)])
  ultimately show ?thesis
    using assms(2,3) by (simp add: np_expand_dims_def np_divide_def)
qed

text \<open>
  Claim C1. For an input whose bytes decode to an image, given as an upload or as a
  data URL, and with \<^verbatim>\<open>cv2.resize\<close> returning the 224 by 224 image \<open>out\<close> it is asked
  for (of the image with its first and third channel swapped), \<^verbatim>\<open>preprocess_image\<close>
  returns a tensor of shape (1, 224, 224, 3): one batch entry of 224 rows of 224 pixels.
  Each channel of the pixel at row \<open>y\<close>, column \<open>x\<close> is the \<^verbatim>\<open>uint8\<close> value of that
  channel of \<open>out\<close> at the same place divided by 255, and lies in [0, 1].
\<close>

theorem preprocess_image_shape_range:
  assumes "data = Upload f \<and> content f = bs
         \<or> data = Json (JStr s) \<and> startswith s ''data:image''
             \<and> split1 s CHR '','' = [header, encoded] \<and> b64decode lib encoded = Inr bs"
    and "imdecode lib bs = Inr (Some img)"
    and "resize lib (map (map (\<lambda>(b, g, r). (r, g, b))) img) (224, 224) = Inr out"
    and "is_image 224 224 out"
  shows "\<exists>t. preprocess_image lib data (224, 224) = Inr t
           \<and> has_shape t (1, 224, 224, 3) \<and> unit_range t
           \<and> length t = 1 \<and> length (t ! 0) = 224
           \<and> (\<forall>y<224. length (t ! 0 ! y) = 224)
           \<and> (\<forall>y<224. \<forall>x<224.
                 case (t ! 0 ! y ! x, out ! y ! x) of
                   ((fr, fg, fb), (r, g, b)) \<Rightarrow>
                     fr = real (unat r) / 255 \<and> fg = real (unat g) / 255
                     \<and> fb = real (unat b) / 255
                     \<and> 0 \<le> fr \<and> fr \<le> 1 \<and> 0 \<le> fg \<and> fg \<le> 1 \<and> 0 \<le> fb \<and> fb \<le> 1)"
proof -
  let ?t = "np_expand_dims (np_divide out 255)"
  have "(\<lambda>(b, g, r). (r, g, b)) = BGR2RGB"
    by (simp add: fun_eq_iff)
  then have sw: "map (map (\<lambda>(b, g, r). (r, g, b))) img = map (map BGR2RGB) img"
    by (simp only:)
  have "preprocess_image lib data (224, 224) = after_bytes lib bs (224, 224)"
    using assms(1) by (auto simp: preprocess_image_Upload preprocess_image_data_url)
  also have "\<dots> = Inr ?t"
    using assms(2,3) by (simp add: after_bytes_def sw)
  finally have res: "preprocess_image lib data (224, 224) = Inr ?t" .
  have sh: "has_shape ?t (1, 224, 224, 3)"
    by (rule has_shape_np_divide [OF assms(4)])
  have ur: "unit_range ?t"
    by (rule unit_range_np_divide)
  have l1: "length ?t = 1" by (simp add: np_expand_dims_def)
  have l2: "length (?t ! 0) = 224"
    using assms(4) by (simp add: np_expand_dims_def np_divide_def is_image_def)
  have l3: "length (?t ! 0 ! y) = 224" if "y < 224" for y
  proof -
    have "length out = 224" using assms(4) by (simp add: is_image_def)
    moreover have "length (out ! y) = 224" by (rule is_image_nth [OF assms(4) that])
    ultimately show ?thesis using that by (simp add: np_expand_dims_def np_divide_def)
  qed
  have el: "case (?t ! 0 ! y ! x, out ! y ! x) of
              ((fr, fg, fb), (r, g, b)) \<Rightarrow>
                fr = real (unat r) / 255 \<and> fg = real (unat g) / 255
                \<and> fb = real (unat b) / 255
                \<and> 0 \<le> fr \<and> fr \<le> 1 \<and> 0 \<le> fg \<and> fg \<le> 1 \<and> 0 \<le> fb \<and> fb \<le> 1"
    if "y < 224" "x < 224" for y x
  proof (cases "out ! y ! x")
    case (fields r g b)
    have "?t ! 0 ! y ! x = div_pixel 255 (out ! y ! x)"
      by (rule np_divide_nth [OF assms(4) that])
    then have v: "?t ! 0 ! y ! x = (real (unat r) / 255, real (unat g) / 255, real (unat b) / 255)"
      by (simp only: fields div_pixel.simps)
    show ?thesis
      unfolding v fields
      using real_unat_byte_le [of r] real_unat_byte_le [of g] real_unat_byte_le [of b]
        real_unat_byte_ge [of r] real_unat_byte_ge [of g] real_unat_byte_ge [of b]
      by simp
  qed
  show ?thesis
  proof (intro exI conjI allI impI)
    show "preprocess_image lib data (224, 224) = Inr ?t" by (rule res)
    show "has_shape ?t (1, 224, 224, 3)" by (rule sh)
    show "unit_range ?t" by (rule ur)
    show "length ?t = 1" by (rule l1)
    show "length (?t ! 0) = 224" by (rule l2)
    show "length (?t ! 0 ! y) = 224" if "y < 224" for y using that by (rule l3)
    show "case (?t ! 0 ! y ! x, out ! y ! x) of
              ((fr, fg, fb), (r, g, b)) \<Rightarrow>
                fr = real (unat r) / 255 \<and> fg = real (unat g) / 255
                \<and> fb = real (unat b) / 255
                \<and> 0 \<le> fr \<and> fr \<le> 1 \<and> 0 \<le> fg \<and> fg \<le> 1 \<and> 0 \<le> fb \<and> fb \<le> 1"
      if "y < 224" "x < 224" for y x using that by (rule el)
  qed
qed

theorem preprocess_image_shape_range_witness:
  "imdecode grey_lib [4, 5, 6] = Inr (Some [[(30, 20, 10)]])
   \<and> resize grey_lib (map (map (\<lambda>(b, g, r). (r, g, b))) [[(30, 20, 10)]]) (224, 224)
       = Inr (replicate 224 (replicate 224 (10, 20, 30)))
   \<and> is_image 224 224 (replicate 224 (replicate 224 (10 :: byte, 20 :: byte, 30 :: byte)))
   \<and> preprocess_image grey_lib (Upload grey_upload) (224, 224) = Inr grey_tensor
   \<and> preprocess_image grey_lib (Json (JStr grey_url)) (224, 224) = Inr grey_tensor
   \<and> has_shape grey_tensor (1, 224, 224, 3) \<and> unit_range grey_tensor
   \<and> length grey_tensor = 1 \<and> length (grey_tensor ! 0) = 224
   \<and> length (grey_tensor ! 0 ! 100) = 224
   \<and> grey_tensor ! 0 ! 100 ! 200 = (10 / 255, 20 / 255, 30 / 255)"
proof -
  let ?out = "replicate 224 (replicate 224 (10 :: byte, 20 :: byte, 30 :: byte))"
  have d: "imdecode grey_lib [4, 5, 6] = Inr (Some [[(30, 20, 10)]])"
    by (simp add: grey_lib_def example_lib_def)
  have r: "resize grey_lib (map (map (\<lambda>(b, g, r). (r, g, b))) [[(30, 20, 10)]]) (224, 224)
             = Inr ?out"
    by (simp add: grey_lib_def example_lib_def)
  have i: "is_image 224 224 ?out" by (rule is_image_replicate)
  have u: "Upload grey_upload = Upload grey_upload \<and> content grey_upload = [4, 5, 6]
         \<or> Upload grey_upload = Json (JStr s) \<and> startswith s ''data:image''
             \<and> split1 s CHR '','' = [header, encoded]
             \<and> b64decode grey_lib encoded = Inr [4, 5, 6]" for s header encoded
    by (simp add: grey_upload_def)
  have j: "Json (JStr grey_url) = Upload f \<and> content f = [4, 5, 6]
         \<or> Json (JStr grey_url) = Json (JStr grey_url) \<and> startswith grey_url ''data:image''
             \<and> split1 grey_url CHR '','' = [''data:image/png;base64'', ''BAUG'']
             \<and> b64decode grey_lib ''BAUG'' = Inr [4, 5, 6]" for f
    by (simp add: startswith_def split1_def grey_url_def grey_lib_def example_lib_def)
  have pu: "preprocess_image grey_lib (Upload grey_upload) (224, 224) = Inr grey_tensor"
    by (simp add: preprocess_image_Upload after_bytes_def grey_lib_def example_lib_def
        grey_upload_def np_expand_dims_def np_divide_def grey_tensor_def)
  have "\<exists>t. preprocess_image grey_lib (Json (JStr grey_url)) (224, 224) = Inr t
          \<and> has_shape t (1, 224, 224, 3) \<and> unit_range t
          \<and> length t = 1 \<and> length (t ! 0) = 224
          \<and> (\<forall>y<224. length (t ! 0 ! y) = 224)
          \<and> (\<forall>y<224. \<forall>x<224.
                case (t ! 0 ! y ! x, ?out ! y ! x) of
                  ((fr, fg, fb), (r, g, b)) \<Rightarrow>
                    fr = real (unat r) / 255 \<and> fg = real (unat g) / 255
                    \<and> fb = real (unat b) / 255
                    \<and> 0 \<le> fr \<and> fr \<le> 1 \<and> 0 \<le> fg \<and> fg \<le> 1 \<and> 0 \<le> fb \<and> fb \<le> 1)"
    by (rule preprocess_image_shape_range [OF j d r i])
  then obtain t' where t': "preprocess_image grey_lib (Json (JStr grey_url)) (224, 224) = Inr t'"
    and B: "has_shape t' (1, 224, 224, 3)"
    by (elim exE conjE)
  have "\<exists>t. preprocess_image grey_lib (Upload grey_upload) (224, 224) = Inr t
          \<and> has_shape t (1, 224, 224, 3) \<and> unit_range t
          \<and> length t = 1 \<and> length (t ! 0) = 224
          \<and> (\<forall>y<224. length (t ! 0 ! y) = 224)
          \<and> (\<forall>y<224. \<forall>x<224.
                case (t ! 0 ! y ! x, ?out ! y ! x) of
                  ((fr, fg, fb), (r, g, b)) \<Rightarrow>
                    fr = real (unat r) / 255 \<and> fg = real (unat g) / 255
                    \<and> fb = real (unat b) / 255
                    \<and> 0 \<le> fr \<and> fr \<le> 1 \<and> 0 \<le> fg \<and> fg \<le> 1 \<and> 0 \<le> fb \<and> fb \<le> 1)"
    by (rule preprocess_image_shape_range [OF u d r i])
  then obtain t where t: "preprocess_image grey_lib (Upload grey_upload) (224, 224) = Inr t"
    and A: "has_shape t (1, 224, 224, 3)" "unit_range t" "length t = 1"
      "length (t ! 0) = 224"
    and L: "\<forall>y<224. length (t ! 0 ! y) = 224"
    and E: "\<forall>y<224. \<forall>x<224.
       case (t ! 0 ! y ! x, ?out ! y ! x) of
         ((fr, fg, fb), (r, g, b)) \<Rightarrow>
           fr = real (unat r) / 255 \<and> fg = real (unat g) / 255
           \<and> fb = real (unat b) / 255
           \<and> 0 \<le> fr \<and> fr \<le> 1 \<and> 0 \<le> fg \<and> fg \<le> 1 \<and> 0 \<le> fb \<and> fb \<le> 1"
    by (elim exE conjE)
  have lt: "(100 :: nat) < 224" "(200 :: nat) < 224" by simp_all
  have l: "length (t ! 0 ! 100) = 224" by (rule L [rule_format, OF lt(1)])
  have o: "?out ! 100 ! 200 = (10, 20, 30)" by simp
  have "case (t ! 0 ! 100 ! 200, ?out ! 100 ! 200) of
         ((fr, fg, fb), (r, g, b)) \<Rightarrow>
           fr = real (unat r) / 255 \<and> fg = real (unat g) / 255
           \<and> fb = real (unat b) / 255
           \<and> 0 \<le> fr \<and> fr \<le> 1 \<and> 0 \<le> fg \<and> fg \<le> 1 \<and> 0 \<le> fb \<and> fb \<le> 1"
    by (rule E [rule_format, OF lt])
  then have e: "t ! 0 ! 100 ! 200 = (10 / 255, 20 / 255, 30 / 255)"
    unfolding o by (cases "t ! 0 ! 100 ! 200") simp
  from t pu have tg: "t = grey_tensor" by simp
  have pj': "preprocess_image grey_lib (Json (JStr grey_url)) (224, 224) = Inr grey_tensor"
    using preprocess_image_data_url [of grey_url "''data:image/png;base64''" "''BAUG''"
        grey_lib "[4, 5, 6]" "(224, 224)"] pu
    by (simp add: startswith_def split1_def grey_url_def preprocess_image_Upload
        grey_upload_def grey_lib_def example_lib_def)
  show ?thesis
    using d r i pu pj' A l e unfolding tg by (intro conjI)
qed

text \<open>
  Claim C2. A data URL whose payload base64-decodes to some bytes and an upload whose
  \<^verbatim>\<open>read()\<close> yields the same bytes give the same result of \<^verbatim>\<open>preprocess_image\<close>.
\<close>

theorem preprocess_image_encoding_independent:
  assumes "startswith s ''data:image''" and "split1 s CHR '','' = [header, encoded]"
    and "b64decode lib encoded = Inr bs" and "content f = bs"
  shows "preprocess_image lib (Json (JStr s)) ts = preprocess_image lib (Upload f) ts"
  using assms by (simp add: preprocess_image_Upload preprocess_image_data_url)

theorem preprocess_image_encoding_independent_witness:
  "startswith blue_url ''data:image''
   \<and> split1 blue_url CHR '','' = [''data:image/png;base64'', ''AQID'']
   \<and> b64decode example_lib ''AQID'' = Inr [1, 2, 3]
   \<and> content blue_upload = [1, 2, 3]
   \<and> preprocess_image example_lib (Json (JStr blue_url)) (224, 224)
       = preprocess_image example_lib (Upload blue_upload) (224, 224)"
proof -
  have b: "b64decode example_lib ''AQID'' = Inr [1, 2, 3]" by (simp add: example_lib_def)
  have c: "content blue_upload = [1, 2, 3]" by (simp add: blue_upload_def)
  show ?thesis
    using preprocess_image_encoding_independent [OF startswith_blue_url split1_blue_url b c]
      startswith_blue_url split1_blue_url b c
    by simp
qed

text \<open>
  Claim C6. When the raw bytes of the input are not an image, \<^verbatim>\<open>preprocess_image\<close>
  fails and returns no tensor: either \<^verbatim>\<open>cv2.imdecode\<close> raises and the exception
  propagates, or it returns \<^verbatim>\<open>None\<close> (no data) and the colour conversion raises
  \<^verbatim>\<open>cv2.error\<close>, the program's decode failure.
\<close>

theorem preprocess_image_undecodable:
  assumes "data = Upload f \<and> content f = bs
         \<or> data = Json (JStr s) \<and> startswith s ''data:image''
             \<and> split1 s CHR '','' = [header, encoded] \<and> b64decode lib encoded = Inr bs"
    and "\<forall>img. imdecode lib bs \<noteq> Inr (Some img)"
  shows "preprocess_image lib data ts =
           Inl (case imdecode lib bs of Inl e \<Rightarrow> e | Inr _ \<Rightarrow> Cv2Error)"
proof -
  have "preprocess_image lib data ts = after_bytes lib bs ts"
    using assms(1) by (auto simp: preprocess_image_Upload preprocess_image_data_url)
  then show ?thesis
    using assms(2) by (auto simp: after_bytes_def split: sum.splits option.splits)
qed

theorem preprocess_image_undecodable_witness:
  "content junk_upload = [7] \<and> imdecode example_lib [7] = Inr None
   \<and> preprocess_image example_lib (Upload junk_upload) (224, 224) = Inl Cv2Error"
proof -
  have n: "imdecode example_lib [7] = Inr None" by (simp add: example_lib_def)
  then have a: "\<forall>img. imdecode example_lib [7] \<noteq> Inr (Some img)" by simp
  have u: "Upload junk_upload = Upload junk_upload \<and> content junk_upload = [7]
         \<or> Upload junk_upload = Json (JStr s) \<and> startswith s ''data:image''
             \<and> split1 s CHR '','' = [header, encoded]
             \<and> b64decode example_lib encoded = Inr [7]" for s header encoded
    by (simp add: junk_upload_def)
  show ?thesis using preprocess_image_undecodable [OF u a] n by (simp add: junk_upload_def)
qed

section \<open>Request handlers\<close>

lemma infer_globals:
  "model (snd (infer lib g img)) = model g \<and> LABEL_MAP (snd (infer lib g img)) = LABEL_MAP g"
  by (simp add: infer_def Let_def split: option.splits sum.splits)



text \<open>
  Claim C5. A POST to \<^verbatim>\<open>/classify_image\<close> without the file field \<^verbatim>\<open>image\<close> is
  answered with status 400 and the body \<^verbatim>\<open>{"error": "No image provided"}\<close>; the globals and
  the log of calls are as before, so neither \<^verbatim>\<open>preprocess_image\<close> nor
  \<^verbatim>\<open>model.predict\<close> was called.
\<close>

theorem classify_image_missing_file:
  assumes "map_of (files req) ''image'' = None"
  shows "classify_image lib g req = (Inr ([(''error'', ''No image provided'')], 400), g)
       \<and> calls (snd (classify_image lib g req)) = calls g"
  using assms by (simp add: classify_image_def)

theorem classify_image_missing_file_witness:
  "map_of (files \<lparr>get_json = JNull, files = []\<rparr>) ''image'' = None
   \<and> classify_image example_lib loaded \<lparr>get_json = JNull, files = []\<rparr>
       = (Inr ([(''error'', ''No image provided'')], 400), loaded)
   \<and> calls (snd (classify_image example_lib loaded \<lparr>get_json = JNull, files = []\<rparr>)) = []"
  using classify_image_missing_file
    [of "\<lparr>get_json = JNull, files = []\<rparr>" example_lib loaded]
  by (simp add: loaded_def)

text \<open>
  Claim C10. The check is on the truth value of the upload: a file field that is present
  but false (its file name is empty) gets the same 400 response, again with no call of
  \<^verbatim>\<open>preprocess_image\<close> or \<^verbatim>\<open>model.predict\<close>.
\<close>

theorem classify_image_falsy_file:
  assumes "map_of (files req) ''image'' = Some f" and "filename f = []"
  shows "classify_image lib g req = (Inr ([(''error'', ''No image provided'')], 400), g)
       \<and> calls (snd (classify_image lib g req)) = calls g"
  using assms by (simp add: classify_image_def)

theorem classify_image_falsy_file_witness:
  "map_of (files \<lparr>get_json = JNull, files = [(''image'', unnamed_upload)]\<rparr>) ''image''
     = Some unnamed_upload
   \<and> filename unnamed_upload = []
   \<and> classify_image example_lib loaded \<lparr>get_json = JNull, files = [(''image'', unnamed_upload)]\<rparr>
       = (Inr ([(''error'', ''No image provided'')], 400), loaded)
   \<and> calls (snd (classify_image example_lib loaded
        \<lparr>get_json = JNull, files = [(''image'', unnamed_upload)]\<rparr>)) = []"
  using classify_image_falsy_file
    [of "\<lparr>get_json = JNull, files = [(''image'', unnamed_upload)]\<rparr>" unnamed_upload
        example_lib loaded]
  by (simp add: loaded_def unnamed_upload_def)

text \<open>
  The log is not idle: a named upload of a decodable image is preprocessed and classified,
  and both calls are recorded.
\<close>

lemma classify_image_named_upload_calls:
  "classify_image example_lib loaded \<lparr>get_json = JNull, files = [(''image'', blue_upload)]\<rparr>
     = (Inr ([(''prediction'', ''C'')], 200),
        loaded\<lparr>calls := [Call_preprocess_image, Call_model_predict]\<rparr>)"
proof -
  have p: "preprocess_image example_lib (Upload blue_upload) (224, 224) = Inr blue_tensor"
    by (simp add: preprocess_image_Upload after_bytes_def example_lib_def blue_upload_def
        np_expand_dims_def np_divide_def blue_tensor_def)
  have a: "np_argmax [[0, 1 / 4, 3 / 4, 0]] = Inr 2"
    by (simp add: np_argmax_def)
  have i: "infer example_lib (loaded\<lparr>calls := [Call_preprocess_image]\<rparr>) blue_tensor
       = (Inr ([(''prediction'', ''C'')], 200),
          loaded\<lparr>calls := [Call_preprocess_image, Call_model_predict]\<rparr>)"
    by (simp add: infer_def loaded_def example_lib_def decode_label_def a dict_get_def
        ascii_uppercase_def)
  show ?thesis
    using p i by (simp add: classify_image_def blue_upload_def loaded_def)
qed

text \<open>
  Claim C8. Whatever the request and whether the handler returns or raises, \<^verbatim>\<open>predict\<close>
  and \<^verbatim>\<open>classify_image\<close> leave the globals \<^verbatim>\<open>model\<close> and \<^verbatim>\<open>LABEL_MAP\<close> as they
  found them.
\<close>

theorem handlers_preserve_globals:
  "model (snd (predict lib g req)) = model g
   \<and> LABEL_MAP (snd (predict lib g req)) = LABEL_MAP g
   \<and> model (snd (classify_image lib g req)) = model g
   \<and> LABEL_MAP (snd (classify_image lib g req)) = LABEL_MAP g"
proof -
  have p: "model (snd (predict lib g req)) = model g
         \<and> LABEL_MAP (snd (predict lib g req)) = LABEL_MAP g"
    by (simp add: predict_def Let_def infer_globals split: sum.splits)
  have c: "model (snd (classify_image lib g req)) = model g
         \<and> LABEL_MAP (snd (classify_image lib g req)) = LABEL_MAP g"
    by (simp add: classify_image_def Let_def infer_globals split: option.splits sum.splits)
  from p c show ?thesis by simp
qed

theorem handlers_preserve_globals_witness:
  "model (snd (classify_image example_lib loaded
      \<lparr>get_json = JNull, files = [(''image'', blue_upload)]\<rparr>)) = Some ()
   \<and> LABEL_MAP (snd (classify_image example_lib loaded
      \<lparr>get_json = JNull, files = [(''image'', blue_upload)]\<rparr>))
       = Some (enumerate 0 ascii_uppercase)
   \<and> model (snd (predict example_lib loaded \<lparr>get_json = JObj [], files = []\<rparr>)) = Some ()
   \<and> LABEL_MAP (snd (predict example_lib loaded \<lparr>get_json = JObj [], files = []\<rparr>))
       = Some (enumerate 0 ascii_uppercase)"
  using handlers_preserve_globals
      [of example_lib loaded "\<lparr>get_json = JNull, files = [(''image'', blue_upload)]\<rparr>"]
    handlers_preserve_globals [of example_lib loaded "\<lparr>get_json = JObj [], files = []\<rparr>"]
  by (simp add: loaded_def)



end
